theory Spec2Isabelle
  imports Main "HOL-Library.AList" "HOL-Library.Word"
begin

section \<open>The session manager of \<open>5-session-cleaner/main.go\<close>\<close>

text \<open>
  The program keeps sessions in a map guarded by one mutex; a background goroutine
  (\<open>MangeSession\<close>) sleeps five seconds, removes the sessions that were not updated for
  five seconds, and repeats until it receives on the channel \<open>done\<close>.

  The embedding is state passing over one record, \<open>world\<close>: the fields of the Go struct
  \<open>SessionManager\<close>, the position of the cleaner goroutine in its loop, the entropy
  source read by \<open>MakeSessionID\<close>, and the list of effects performed so far (lock and
  unlock, accesses to the map, sleeps, channel operations, log records). Every source
  function is one HOL function on \<open>world\<close>; the clock reading that a call obtains from
  \<open>time.Now()\<close> or \<open>time.Since\<close> is a parameter of the function.
\<close>

subsection \<open>Time\<close>

text \<open>
  A \<open>time.Time\<close> is its reading of the monotonic clock in nanoseconds, a
  \<open>time.Duration\<close> a number of nanoseconds. Go saturates a difference at the bounds
  of \<open>int64\<close> (about 292 years); a comparison with five seconds has the same result
  on the saturated and on the exact difference, so the difference is exact here.
\<close>

type_synonym time = int
type_synonym duration = int

definition Microsecond :: duration where
  "Microsecond = 1000"

definition Second :: duration where
  "Second = 1000000000"

definition Since :: "time \<Rightarrow> time \<Rightarrow> duration" where
  \<comment> \<open>\<open>time.Since(t)\<close>, called when the clock reads \<open>now\<close>\<close>
  "Since now t = now - t"

subsection \<open>Errors, bytes and the entropy source\<close>

datatype error =
    ErrSessionNotFound      \<comment> \<open>\<open>errors.New("SessionID does not exist")\<close>\<close>
  | EOF
  | ErrUnexpectedEOF
  | ErrReader nat           \<comment> \<open>any other error of the reader, by a code\<close>

type_synonym byte = "8 word"

text \<open>
  \<open>rand.Reader\<close> is the bytes it can still deliver and the error it returns once they
  are used up. \<open>io.ReadFull\<close> fills the buffer or fails: with the reader's error, and
  with \<open>ErrUnexpectedEOF\<close> when the reader reports \<open>EOF\<close> after some bytes.
\<close>

record Reader =
  avail :: "byte list"
  failure :: error

subsection \<open>Data\<close>

record 'v Session =
  Data :: "string \<rightharpoonup> 'v"
  LastUpdate :: time

text \<open>
  The unbuffered channel \<open>done\<close>: whether it is closed, and the values of the senders
  blocked in a send (a send on an unbuffered channel completes when it is received).
\<close>

record chan =
  closed :: bool
  sendq :: "bool list"

text \<open>
  The map \<open>sessions\<close> is an association list: the order of the list is the order in which
  \<open>range\<close> enumerates the map. \<open>sync\<close> is true while the mutex is held.
\<close>

record 'v SessionManager =
  sessions :: "(string \<times> 'v Session) list"
  sync :: bool
  done_ch :: chan

datatype cleaner_pc =
    AtSelect           \<comment> \<open>at the \<open>select\<close> at the top of the loop\<close>
  | Sleeping time      \<comment> \<open>in \<open>time.Sleep\<close>, not to wake before the given time\<close>
  | Exited             \<comment> \<open>\<open>MangeSession\<close> has returned\<close>

datatype effect =
    Lock | Unlock
  | MapLen | MapGet string | MapNext string | MapSet string | MapDelete string
  | RandRead nat
  | Sleep duration
  | ChanSend | ChanRecv | ChanClose
  | LogDeleted "string list"     \<comment> \<open>\<open>log.Printf("Deleted session IDs: %v", deletedKeys)\<close>\<close>
  | LogStopping                  \<comment> \<open>\<open>log.Println("Stopping session cleaner.")\<close>\<close>

record 'v world = "'v SessionManager" +
  cleaner :: cleaner_pc
  rand_Reader :: Reader
  trace :: "effect list"
  panic :: "string option"

definition emit :: "effect list \<Rightarrow> 'v world \<Rightarrow> 'v world" where
  "emit es w = w\<lparr>trace := trace w @ es\<rparr>"

definition Lock_sync :: "'v world \<Rightarrow> 'v world" where
  "Lock_sync w = emit [Lock] (w\<lparr>sync := True\<rparr>)"

definition Unlock_sync :: "'v world \<Rightarrow> 'v world" where
  "Unlock_sync w = emit [Unlock] (w\<lparr>sync := False\<rparr>)"

subsection \<open>\<open>MakeSessionID\<close>\<close>

definition ReadFull :: "nat \<Rightarrow> 'v world \<Rightarrow> (byte list \<times> error option) \<times> 'v world" where
  "ReadFull n w =
     (let r = rand_Reader w in
      if n \<le> length (avail r)
      then ((take n (avail r), None),
            emit [RandRead n] (w\<lparr>rand_Reader := r\<lparr>avail := drop n (avail r)\<rparr>\<rparr>))
      else ((avail r @ replicate (n - length (avail r)) 0,
             Some (if avail r \<noteq> [] \<and> failure r = EOF then ErrUnexpectedEOF else failure r)),
            emit [RandRead n] (w\<lparr>rand_Reader := r\<lparr>avail := []\<rparr>\<rparr>)))"

text \<open>
  \<open>base64.StdEncoding.EncodeToString\<close>: the alphabet of RFC 4648, three bytes to four
  characters, the last group padded with \<open>=\<close>.
\<close>

definition encodeStd :: string where
  "encodeStd = ''ABCDEFGHIJKLMNOPQRSTUVWXYZabcdefghijklmnopqrstuvwxyz0123456789+/''"

definition sextet :: "nat \<Rightarrow> nat \<Rightarrow> char" where
  \<comment> \<open>\<open>enc.encode[val >> shift & 0x3F]\<close>\<close>
  "sextet val shift = encodeStd ! (val div 2 ^ shift mod 64)"

fun EncodeToString :: "byte list \<Rightarrow> string" where
  "EncodeToString (a # b # c # src) =
     (let val = unat a * 65536 + unat b * 256 + unat c
      in sextet val 18 # sextet val 12 # sextet val 6 # sextet val 0 # EncodeToString src)"
| "EncodeToString [a, b] =
     (let val = unat a * 65536 + unat b * 256
      in [sextet val 18, sextet val 12, sextet val 6, CHR ''=''])"
| "EncodeToString [a] =
     (let val = unat a * 65536
      in [sextet val 18, sextet val 12, CHR ''='', CHR ''=''])"
| "EncodeToString [] = []"

definition MakeSessionID :: "'v world \<Rightarrow> (string \<times> error option) \<times> 'v world" where
  "MakeSessionID w =
     (let ((buf, err), w1) = ReadFull 26 w in
      case err of
        Some e \<Rightarrow> (('''', Some e), w1)
      | None \<Rightarrow> ((EncodeToString buf, None), w1))"

subsection \<open>The operations of the store\<close>

definition NewSessionManager :: "Reader \<Rightarrow> 'v world" where
  \<comment> \<open>\<open>go m.MangeSession()\<close>: the cleaner exists and has not run yet\<close>
  "NewSessionManager r =
     \<lparr>sessions = [], sync = False, done_ch = \<lparr>closed = False, sendq = []\<rparr>,
      cleaner = AtSelect, rand_Reader = r, trace = [], panic = None\<rparr>"

definition CreateSession :: "time \<Rightarrow> 'v world \<Rightarrow> (string \<times> error option) \<times> 'v world" where
  "CreateSession now w =
     (let w1 = Lock_sync w;
          ((sessionID, err), w2) = MakeSessionID w1
      in case err of
           Some e \<Rightarrow> (('''', Some e), Unlock_sync w2)
         | None \<Rightarrow>
             let w3 = emit [MapSet sessionID]
                        (w2\<lparr>sessions :=
                              AList.update sessionID \<lparr>Data = Map.empty, LastUpdate = now\<rparr>
                                (sessions w2)\<rparr>)
             in ((sessionID, None), Unlock_sync w3))"

definition GetSessionData :: "string \<Rightarrow> 'v world \<Rightarrow> ((string \<rightharpoonup> 'v) \<times> error option) \<times> 'v world" where
  \<comment> \<open>the \<open>nil\<close> map returned with the error reads as the empty map\<close>
  "GetSessionData sessionID w =
     (let w1 = emit [MapGet sessionID] (Lock_sync w) in
      case map_of (sessions w1) sessionID of
        None \<Rightarrow> ((Map.empty, Some ErrSessionNotFound), Unlock_sync w1)
      | Some session \<Rightarrow> ((Data session, None), Unlock_sync w1))"

definition UpdateSessionData ::
    "time \<Rightarrow> string \<Rightarrow> (string \<rightharpoonup> 'v) \<Rightarrow> 'v world \<Rightarrow> error option \<times> 'v world" where
  "UpdateSessionData now sessionID data w =
     (let w1 = emit [MapGet sessionID] (Lock_sync w) in
      case map_of (sessions w1) sessionID of
        None \<Rightarrow> (Some ErrSessionNotFound, Unlock_sync w1)
      | Some session \<Rightarrow>
          let session1 = session\<lparr>Data := data, LastUpdate := now\<rparr>;
              w2 = emit [MapSet sessionID]
                     (w1\<lparr>sessions := AList.update sessionID session1 (sessions w1)\<rparr>)
          in (None, Unlock_sync w2))"

subsection \<open>The cleaner\<close>

definition expired :: "time \<Rightarrow> 'v Session \<Rightarrow> bool" where
  \<comment> \<open>\<open>time.Since(sess.LastUpdate) >= 5*time.Second\<close>\<close>
  "expired now sess = (5 * Second \<le> Since now (LastUpdate sess))"

definition delete_key :: "string \<Rightarrow> 'v world \<Rightarrow> 'v world" where
  \<comment> \<open>\<open>delete(m.sessions, key)\<close>\<close>
  "delete_key key w = emit [MapDelete key] (w\<lparr>sessions := AList.delete key (sessions w)\<rparr>)"

definition expired_keys :: "time \<Rightarrow> (string \<times> 'v Session) list \<Rightarrow> string list" where
  \<comment> \<open>the first loop of the pass: the value of \<open>deletedKeys\<close> when \<open>range\<close> is done\<close>
  "expired_keys now al = map fst (filter (\<lambda>(id, sess). expired now sess) al)"

definition scan :: "time \<Rightarrow> 'v world \<Rightarrow> 'v world" where
  \<comment> \<open>lines 119 to 145: one pass under the mutex, with the clock reading \<open>now\<close>\<close>
  "scan now w =
     (let w1 = emit [MapLen] (Lock_sync w) in
      if length (sessions w1) = 0 then Unlock_sync w1
      else
        let w2 = emit (map (\<lambda>(id, sess). MapNext id) (sessions w1)) w1;
            deletedKeys = expired_keys now (sessions w1);
            w3 = foldl (\<lambda>w' key. delete_key key w') w2 deletedKeys;
            w4 = (if length deletedKeys > 0 then emit [LogDeleted deletedKeys] w3 else w3)
        in Unlock_sync w4)"

definition close_done :: "'v world \<Rightarrow> 'v world" where
  \<comment> \<open>\<open>close(m.done)\<close>: closing twice panics, and so does every sender left blocked\<close>
  "close_done w =
     (if closed (done_ch w) then w\<lparr>panic := Some ''close of closed channel''\<rparr>
      else
        let w1 = emit [ChanClose] (w\<lparr>done_ch := (done_ch w)\<lparr>closed := True\<rparr>\<rparr>)
        in if sendq (done_ch w1) \<noteq> [] then w1\<lparr>panic := Some ''send on closed channel''\<rparr>
           else w1)"

definition StopSession :: "'v world \<Rightarrow> 'v world" where
  \<comment> \<open>up to the send \<open>m.done <- true\<close>, where the caller blocks until the cleaner receives;
      the rest of the call (\<open>close(m.done)\<close>) runs when the send is received\<close>
  "StopSession w =
     (let w1 = emit [Sleep (6 * Microsecond)] w in
      if closed (done_ch w1) then w1\<lparr>panic := Some ''send on closed channel''\<rparr>
      else emit [ChanSend] (w1\<lparr>done_ch := (done_ch w1)\<lparr>sendq := sendq (done_ch w1) @ [True]\<rparr>\<rparr>))"

definition MangeSession :: "time \<Rightarrow> 'v world \<Rightarrow> 'v world" where
  \<comment> \<open>the next move of the cleaner goroutine, made when the clock reads \<open>t\<close>\<close>
  "MangeSession t w =
     (case cleaner w of
        AtSelect \<Rightarrow>
          if sendq (done_ch w) \<noteq> [] then
            \<comment> \<open>\<open>case <-m.done\<close> receives from the blocked sender, whose call goes on to
                \<open>close(m.done)\<close>\<close>
            close_done
              (emit [ChanRecv, LogStopping]
                 (w\<lparr>cleaner := Exited,
                    done_ch := (done_ch w)\<lparr>sendq := tl (sendq (done_ch w))\<rparr>\<rparr>))
          else if closed (done_ch w) then
            emit [ChanRecv, LogStopping] (w\<lparr>cleaner := Exited\<rparr>)
          else
            \<comment> \<open>\<open>default\<close>: \<open>time.Sleep(5 * time.Second)\<close> starts\<close>
            emit [Sleep (5 * Second)] (w\<lparr>cleaner := Sleeping (t + 5 * Second)\<rparr>)
      | Sleeping wake \<Rightarrow>
          if wake \<le> t then (scan t w)\<lparr>cleaner := AtSelect\<rparr> else w
      | Exited \<Rightarrow> w)"

subsection \<open>Runs\<close>

text \<open>
  A run is a list of timed actions: the calls of the clients and the moves of the
  cleaner, in the order in which they take effect. After a panic the program is gone and
  nothing takes effect any more.
\<close>

datatype 'v action =
    Create
  | Get string
  | Update string "string \<rightharpoonup> 'v"
  | Stop
  | Cleaner

definition step :: "time \<times> 'v action \<Rightarrow> 'v world \<Rightarrow> 'v world" where
  "step ta w =
     (if panic w \<noteq> None then w
      else case snd ta of
        Create \<Rightarrow> snd (CreateSession (fst ta) w)
      | Get sessionID \<Rightarrow> snd (GetSessionData sessionID w)
      | Update sessionID data \<Rightarrow> snd (UpdateSessionData (fst ta) sessionID data w)
      | Stop \<Rightarrow> StopSession w
      | Cleaner \<Rightarrow> MangeSession (fst ta) w)"

fun run :: "(time \<times> 'v action) list \<Rightarrow> 'v world \<Rightarrow> 'v world" where
  "run [] w = w"
| "run (ta # tas) w = run tas (step ta w)"

subsection \<open>What a run does to the store\<close>

text \<open>
  The IDs that the \<open>CreateSession\<close> calls of a run return, the IDs that the passes of the
  cleaner delete during a run, and the IDs that the \<open>UpdateSessionData\<close> calls of a run
  name.
\<close>

fun created :: "(time \<times> 'v action) list \<Rightarrow> 'v world \<Rightarrow> string list" where
  "created [] w = []"
| "created (ta # tas) w =
     (case snd ta of
        Create \<Rightarrow>
          if panic w = None \<and> snd (fst (CreateSession (fst ta) w)) = None
          then [fst (fst (CreateSession (fst ta) w))] else []
      | _ \<Rightarrow> []) @ created tas (step ta w)"

fun evicted :: "(time \<times> 'v action) list \<Rightarrow> 'v world \<Rightarrow> string list" where
  "evicted [] w = []"
| "evicted (ta # tas) w =
     (case snd ta of
        Cleaner \<Rightarrow>
          (case cleaner w of
             Sleeping wake \<Rightarrow>
               if panic w = None \<and> wake \<le> fst ta
               then expired_keys (fst ta) (sessions w) else []
           | _ \<Rightarrow> [])
      | _ \<Rightarrow> []) @ evicted tas (step ta w)"


subsection \<open>The discipline of the mutex, read off the effects\<close>

fun is_map_access :: "effect \<Rightarrow> bool" where
  "is_map_access MapLen = True"
| "is_map_access (MapGet k) = True"
| "is_map_access (MapNext k) = True"
| "is_map_access (MapSet k) = True"
| "is_map_access (MapDelete k) = True"
| "is_map_access e = False"

fun is_sleep_or_chan :: "effect \<Rightarrow> bool" where
  "is_sleep_or_chan (Sleep d) = True"
| "is_sleep_or_chan ChanSend = True"
| "is_sleep_or_chan ChanRecv = True"
| "is_sleep_or_chan ChanClose = True"
| "is_sleep_or_chan e = False"

fun is_io :: "effect \<Rightarrow> bool" where
  \<comment> \<open>a read of the entropy source of the operating system, a write to the log\<close>
  "is_io (RandRead n) = True"
| "is_io (LogDeleted ks) = True"
| "is_io LogStopping = True"
| "is_io e = False"

definition is_blocking :: "effect \<Rightarrow> bool" where
  \<comment> \<open>a blocking wait: sleep, I/O or a channel operation\<close>
  "is_blocking e = (is_sleep_or_chan e \<or> is_io e)"

text \<open>
  \<open>guarded held es\<close>: in the effects \<open>es\<close>, performed from a state where the mutex is held
  or not, lock and unlock alternate and every access to the map happens while the mutex
  is held. \<open>locked_after\<close> is whether the mutex is held afterwards. \<open>none_locked P held es\<close>:
  no effect that satisfies \<open>P\<close> happens while the mutex is held.
\<close>

fun guarded :: "bool \<Rightarrow> effect list \<Rightarrow> bool" where
  "guarded held [] = True"
| "guarded held (Lock # es) = (\<not> held \<and> guarded True es)"
| "guarded held (Unlock # es) = (held \<and> guarded False es)"
| "guarded held (e # es) = ((if is_map_access e then held else True) \<and> guarded held es)"

fun locked_after :: "bool \<Rightarrow> effect list \<Rightarrow> bool" where
  "locked_after held [] = held"
| "locked_after held (Lock # es) = locked_after True es"
| "locked_after held (Unlock # es) = locked_after False es"
| "locked_after held (e # es) = locked_after held es"

fun none_locked :: "(effect \<Rightarrow> bool) \<Rightarrow> bool \<Rightarrow> effect list \<Rightarrow> bool" where
  "none_locked P held [] = True"
| "none_locked P held (Lock # es) = none_locked P True es"
| "none_locked P held (Unlock # es) = none_locked P False es"
| "none_locked P held (e # es) = ((if held then \<not> P e else True) \<and> none_locked P held es)"

subsection \<open>Example inputs\<close>

text \<open>
  An entropy source that delivers \<open>n\<close> zero bytes and then reports \<open>EOF\<close>, the session
  ID made of 26 zero bytes, and the data that \<open>main\<close> stores.
\<close>

definition zero_Reader :: "nat \<Rightarrow> Reader" where
  "zero_Reader n = \<lparr>avail = replicate n 0, failure = EOF\<rparr>"

definition zero_ID :: string where
  "zero_ID = EncodeToString (replicate 26 0)"

definition website :: "string \<rightharpoonup> string" where
  "website = [''website'' \<mapsto> ''longhoang.de'']"

text \<open>
  The store after the first two calls of \<open>main\<close>, on an entropy source of \<open>n\<close> zero bytes:
  \<open>CreateSession\<close> when the clock reads 1, then \<open>UpdateSessionData\<close> of the new session
  when it reads 2.
\<close>

definition stored :: "nat \<Rightarrow> string world" where
  "stored n =
     snd (UpdateSessionData 2 zero_ID website
            (snd (CreateSession 1 (NewSessionManager (zero_Reader n)))))"

section \<open>Properties\<close>

subsection \<open>The pass of the cleaner\<close>

lemma sessions_foldl_delete_key:
  "sessions (foldl (\<lambda>w' key. delete_key key w') w ks) =
     filter (\<lambda>(k, s). k \<notin> set ks) (sessions w)"
proof (induction ks arbitrary: w)
  case Nil
  then show ?case by simp
next
  case (Cons k ks)
  have "sessions (delete_key k w) = filter (\<lambda>(k', s). k' \<noteq> k) (sessions w)"
    by (auto simp: delete_key_def emit_def AList.delete_eq intro: filter_cong)
  then show ?case
    using Cons.IH [of "delete_key k w"] by (auto simp: case_prod_unfold intro: filter_cong)
qed


lemma sessions_scan:
  "sessions (scan now w) =
     filter (\<lambda>(k, s). k \<notin> set (expired_keys now (sessions w))) (sessions w)"
proof (cases "sessions w = []")
  case True
  then show ?thesis
    by (simp add: scan_def Let_def Lock_sync_def Unlock_sync_def emit_def)
next
  case False
  then show ?thesis
    unfolding scan_def Let_def
    by (simp add: Lock_sync_def Unlock_sync_def emit_def sessions_foldl_delete_key)
qed


lemma map_of_filter_keys:
  "map_of (filter (\<lambda>(k, s). k \<notin> K) al) k = (if k \<in> K then None else map_of al k)"
  by (induction al) auto

lemma map_of_scan:
  "map_of (sessions (scan now w)) k =
     (if k \<in> set (expired_keys now (sessions w)) then None else map_of (sessions w) k)"
  by (simp add: sessions_scan map_of_filter_keys)

lemma expired_in_expired_keys:
  "map_of al k = Some s \<Longrightarrow> expired now s \<Longrightarrow> k \<in> set (expired_keys now al)"
  by (force simp: expired_keys_def dest: map_of_SomeD)

lemma expired_keys_distinct:
  "distinct (map fst al) \<Longrightarrow>
     k \<in> set (expired_keys now al) \<longleftrightarrow> (\<exists>s. map_of al k = Some s \<and> expired now s)"
  by (force simp: expired_keys_def dest: map_of_SomeD)





subsection \<open>The operations of the store, as equations\<close>

lemmas op_defs = CreateSession_def GetSessionData_def UpdateSessionData_def MakeSessionID_def
  ReadFull_def Lock_sync_def Unlock_sync_def emit_def Let_def

lemma length_EncodeToString:
  "length (EncodeToString src) = 4 * ((length src + 2) div 3)"
proof (induction src rule: EncodeToString.induct)
  case (1 a b c src)
  have "(length src + 5) div 3 = Suc ((length src + 2) div 3)" by presburger
  with 1 show ?case by (simp add: Let_def add.commute)
qed (simp_all add: Let_def)

lemma sextet_in_alphabet: "sextet val shift \<in> set encodeStd"
proof -
  have "length encodeStd = 64" by (simp add: encodeStd_def)
  then have "val div 2 ^ shift mod 64 < length encodeStd" by simp
  then show ?thesis unfolding sextet_def by (rule nth_mem)
qed

lemma set_EncodeToString:
  "set (EncodeToString src) \<subseteq> set encodeStd \<union> {CHR ''=''}"
  by (induction src rule: EncodeToString.induct) (simp_all add: Let_def sextet_in_alphabet)

lemma last_EncodeToString:
  "length src mod 3 \<noteq> 0 \<Longrightarrow>
     EncodeToString src \<noteq> [] \<and> last (EncodeToString src) = CHR ''=''"
proof (induction src rule: EncodeToString.induct)
  case (1 a b c src)
  have "length src mod 3 \<noteq> 0" using "1.prems" by simp
  with "1.IH" show ?case by (simp add: Let_def)
qed (simp_all add: Let_def)

lemma CreateSession_fails:
  "length (avail (rand_Reader w)) < 26 \<Longrightarrow>
   CreateSession now w =
     (('''', Some (if avail (rand_Reader w) \<noteq> [] \<and> failure (rand_Reader w) = EOF
                   then ErrUnexpectedEOF else failure (rand_Reader w))),
      w\<lparr>sync := False, rand_Reader := (rand_Reader w)\<lparr>avail := []\<rparr>,
         trace := trace w @ [Lock, RandRead 26, Unlock]\<rparr>)"
  by (simp add: op_defs)

lemma CreateSession_succeeds:
  "26 \<le> length (avail (rand_Reader w)) \<Longrightarrow>
   CreateSession now w =
     ((EncodeToString (take 26 (avail (rand_Reader w))), None),
      w\<lparr>sessions := AList.update (EncodeToString (take 26 (avail (rand_Reader w))))
                      \<lparr>Data = Map.empty, LastUpdate = now\<rparr> (sessions w),
         sync := False, rand_Reader := (rand_Reader w)\<lparr>avail := drop 26 (avail (rand_Reader w))\<rparr>,
         trace := trace w @ [Lock, RandRead 26,
                             MapSet (EncodeToString (take 26 (avail (rand_Reader w)))), Unlock]\<rparr>)"
  by (simp add: op_defs)

lemma GetSessionData_eq:
  "GetSessionData sid w =
     ((case map_of (sessions w) sid of None \<Rightarrow> (Map.empty, Some ErrSessionNotFound)
       | Some s \<Rightarrow> (Data s, None)),
      w\<lparr>sync := False, trace := trace w @ [Lock, MapGet sid, Unlock]\<rparr>)"
  by (simp add: op_defs split: option.splits)

lemma UpdateSessionData_absent:
  "map_of (sessions w) sid = None \<Longrightarrow>
   UpdateSessionData now sid d w =
     (Some ErrSessionNotFound, w\<lparr>sync := False, trace := trace w @ [Lock, MapGet sid, Unlock]\<rparr>)"
  by (simp add: op_defs)

lemma UpdateSessionData_present:
  "map_of (sessions w) sid = Some s \<Longrightarrow>
   UpdateSessionData now sid d w =
     (None, w\<lparr>sessions := AList.update sid (s\<lparr>Data := d, LastUpdate := now\<rparr>) (sessions w),
              sync := False, trace := trace w @ [Lock, MapGet sid, MapSet sid, Unlock]\<rparr>)"
  by (simp add: op_defs)


lemma CreateSession_zero:
  "0 < n \<Longrightarrow> CreateSession now ((NewSessionManager (zero_Reader (26 * n)) :: string world)) =
     ((zero_ID, None),
      \<lparr>sessions = [(zero_ID, \<lparr>Data = Map.empty, LastUpdate = now\<rparr>)], sync = False,
        done_ch = \<lparr>closed = False, sendq = []\<rparr>, cleaner = AtSelect,
        rand_Reader = zero_Reader (26 * n - 26), trace = [Lock, RandRead 26, MapSet zero_ID, Unlock],
        panic = None\<rparr>)"
  by (subst CreateSession_succeeds)
     (simp_all add: NewSessionManager_def zero_Reader_def zero_ID_def min_def)

text \<open>
  Claim C3. For an ID in the store \<open>UpdateSessionData\<close> returns no error and leaves under
  the ID the session made of the new data, as a whole, and of the current time; the two
  fields are written by one assignment to the map (one \<open>MapSet\<close> between lock and unlock);
  and \<open>LastUpdate\<close> does not decrease when the clock has not gone back since the stored
  reading. For an ID not in the store it returns \<open>ErrSessionNotFound\<close> and the map is as
  before.
\<close>

theorem UpdateSessionData_replaces_and_refreshes:
  "(map_of (sessions w) sid = Some s \<longrightarrow>
      fst (UpdateSessionData now sid d w) = None \<and>
      map_of (sessions (snd (UpdateSessionData now sid d w))) sid =
        Some \<lparr>Data = d, LastUpdate = now\<rparr> \<and>
      trace (snd (UpdateSessionData now sid d w)) =
        trace w @ [Lock, MapGet sid, MapSet sid, Unlock] \<and>
      (LastUpdate s \<le> now \<longrightarrow>
         (\<exists>s'. map_of (sessions (snd (UpdateSessionData now sid d w))) sid = Some s' \<and>
               LastUpdate s \<le> LastUpdate s'))) \<and>
   (map_of (sessions w) sid = None \<longrightarrow>
      fst (UpdateSessionData now sid d w) = Some ErrSessionNotFound \<and>
      sessions (snd (UpdateSessionData now sid d w)) = sessions w)"
  by (simp add: UpdateSessionData_present UpdateSessionData_absent update_conv')

theorem UpdateSessionData_replaces_and_refreshes_witness:
  "map_of (sessions (snd (CreateSession 0 (NewSessionManager (zero_Reader 26) :: string world))))
     zero_ID = Some \<lparr>Data = Map.empty, LastUpdate = 0\<rparr> \<and>
   fst (UpdateSessionData 7 zero_ID website
          (snd (CreateSession 0 (NewSessionManager (zero_Reader 26))))) = None \<and>
   map_of (sessions (snd (UpdateSessionData 7 zero_ID website
          (snd (CreateSession 0 (NewSessionManager (zero_Reader 26))))))) zero_ID =
     Some \<lparr>Data = website, LastUpdate = 7\<rparr> \<and>
   map_of (sessions (NewSessionManager (zero_Reader 26) :: string world)) zero_ID = None \<and>
   fst (UpdateSessionData 7 zero_ID website (NewSessionManager (zero_Reader 26))) =
     Some ErrSessionNotFound"
proof -
  let ?init = "NewSessionManager (zero_Reader 26) :: string world"
  let ?w = "snd (CreateSession 0 ?init)"
  have c: "CreateSession 0 ?init = ((zero_ID, None),
      \<lparr>sessions = [(zero_ID, \<lparr>Data = Map.empty, LastUpdate = 0\<rparr>)], sync = False,
        done_ch = \<lparr>closed = False, sendq = []\<rparr>, cleaner = AtSelect,
        rand_Reader = zero_Reader 0, trace = [Lock, RandRead 26, MapSet zero_ID, Unlock],
        panic = None\<rparr>)"
    using CreateSession_zero [of 1 0] by simp
  have p: "map_of (sessions ?w) zero_ID = Some \<lparr>Data = Map.empty, LastUpdate = 0\<rparr>"
    by (simp add: c)
  have a: "map_of (sessions ?init) zero_ID = None"
    by (simp add: NewSessionManager_def)
  note present = UpdateSessionData_replaces_and_refreshes
      [of ?w zero_ID "\<lparr>Data = Map.empty, LastUpdate = 0\<rparr>" 7 website, THEN conjunct1, rule_format, OF p]
  note absent = UpdateSessionData_replaces_and_refreshes
      [of ?init zero_ID _ 7 website, THEN conjunct2, rule_format, OF a]
  show ?thesis using p a present absent by simp
qed

subsection \<open>\<open>CreateSession\<close> and \<open>MakeSessionID\<close>\<close>

lemma ReadFull_error:
  "snd (fst (ReadFull n w)) = None \<longleftrightarrow> n \<le> length (avail (rand_Reader w))"
  by (simp add: ReadFull_def Let_def)

lemma MakeSessionID_error:
  "snd (fst (MakeSessionID w)) = snd (fst (ReadFull 26 w))"
  by (simp add: MakeSessionID_def ReadFull_def Let_def)

text \<open>
  Claim C4. \<open>CreateSession\<close> returns the error of the one \<open>io.ReadFull\<close> of 26 bytes that
  \<open>MakeSessionID\<close> makes, as it is. When that read fails the call returns the empty string
  with the error, has read the entropy source once and has not touched the map. When it
  succeeds the call returns no error and the ID, which is the padded standard base64
  encoding of the 26 bytes read (36 characters of the alphabet, the last one \<open>=\<close>), and
  the map holds under that ID a session with empty data and the current time.
\<close>

theorem CreateSession_result:
  "snd (fst (CreateSession now w)) = snd (fst (ReadFull 26 w)) \<and>
   snd (fst (CreateSession now w)) = snd (fst (MakeSessionID w)) \<and>
   (snd (fst (ReadFull 26 w)) \<noteq> None \<longrightarrow>
      fst (fst (CreateSession now w)) = '''' \<and>
      sessions (snd (CreateSession now w)) = sessions w \<and>
      trace (snd (CreateSession now w)) = trace w @ [Lock, RandRead 26, Unlock]) \<and>
   (snd (fst (ReadFull 26 w)) = None \<longrightarrow>
      fst (fst (CreateSession now w)) = EncodeToString (fst (fst (ReadFull 26 w))) \<and>
      fst (fst (ReadFull 26 w)) = take 26 (avail (rand_Reader w)) \<and>
      length (fst (fst (ReadFull 26 w))) = 26 \<and>
      length (fst (fst (CreateSession now w))) = 36 \<and>
      last (fst (fst (CreateSession now w))) = CHR ''='' \<and>
      set (fst (fst (CreateSession now w))) \<subseteq> set encodeStd \<union> {CHR ''=''} \<and>
      sessions (snd (CreateSession now w)) =
        AList.update (fst (fst (CreateSession now w))) \<lparr>Data = Map.empty, LastUpdate = now\<rparr>
          (sessions w) \<and>
      map_of (sessions (snd (CreateSession now w))) (fst (fst (CreateSession now w))) =
        Some \<lparr>Data = Map.empty, LastUpdate = now\<rparr> \<and>
      trace (snd (CreateSession now w)) =
        trace w @ [Lock, RandRead 26, MapSet (fst (fst (CreateSession now w))), Unlock])"
proof (cases "26 \<le> length (avail (rand_Reader w))")
  case True
  let ?buf = "take 26 (avail (rand_Reader w))"
  have buf: "length ?buf = 26" using True by simp
  have r: "fst (ReadFull 26 w) = (?buf, None)"
    using True by (simp add: ReadFull_def Let_def)
  have len: "length (EncodeToString ?buf) = 36"
    by (simp add: length_EncodeToString buf del: length_take)
  have pad: "last (EncodeToString ?buf) = CHR ''=''"
    using last_EncodeToString [of ?buf] by (simp add: buf del: length_take)
  show ?thesis
    using len pad set_EncodeToString [of ?buf] buf
    by (simp add: CreateSession_succeeds [OF True] MakeSessionID_error r update_conv'
        del: length_take)
next
  case False
  then have short: "length (avail (rand_Reader w)) < 26" by simp
  have r: "snd (fst (ReadFull 26 w)) \<noteq> None"
    using False by (simp add: ReadFull_error)
  show ?thesis
    using r by (auto simp: CreateSession_fails [OF short] MakeSessionID_error ReadFull_def Let_def)
qed

theorem CreateSession_result_witness:
  "snd (fst (ReadFull 26 (NewSessionManager (zero_Reader 26) :: string world))) = None \<and>
   CreateSession 3 (NewSessionManager (zero_Reader 26) :: string world) =
     ((zero_ID, None),
      \<lparr>sessions = [(zero_ID, \<lparr>Data = Map.empty, LastUpdate = 3\<rparr>)], sync = False,
        done_ch = \<lparr>closed = False, sendq = []\<rparr>, cleaner = AtSelect,
        rand_Reader = zero_Reader 0, trace = [Lock, RandRead 26, MapSet zero_ID, Unlock],
        panic = None\<rparr>) \<and>
   length zero_ID = 36 \<and> last zero_ID = CHR ''='' \<and>
   snd (fst (ReadFull 26 (NewSessionManager (zero_Reader 10) :: string world))) =
     Some ErrUnexpectedEOF \<and>
   fst (CreateSession 3 (NewSessionManager (zero_Reader 10) :: string world)) =
     ('''', Some ErrUnexpectedEOF) \<and>
   sessions (snd (CreateSession 3 (NewSessionManager (zero_Reader 10) :: string world))) = []"
proof -
  let ?good = "NewSessionManager (zero_Reader 26) :: string world"
  let ?bad = "NewSessionManager (zero_Reader 10) :: string world"
  have g: "snd (fst (ReadFull 26 ?good)) = None"
    by (simp add: ReadFull_error NewSessionManager_def zero_Reader_def)
  have b: "snd (fst (ReadFull 26 ?bad)) = Some ErrUnexpectedEOF"
    by (simp add: ReadFull_def NewSessionManager_def zero_Reader_def)
  then have b': "snd (fst (ReadFull 26 ?bad)) \<noteq> None" by simp
  have c: "CreateSession 3 ?good = ((zero_ID, None),
      \<lparr>sessions = [(zero_ID, \<lparr>Data = Map.empty, LastUpdate = 3\<rparr>)], sync = False,
        done_ch = \<lparr>closed = False, sendq = []\<rparr>, cleaner = AtSelect,
        rand_Reader = zero_Reader 0, trace = [Lock, RandRead 26, MapSet zero_ID, Unlock],
        panic = None\<rparr>)"
    using CreateSession_zero [of 1 3] by simp
  note ok = CreateSession_result [of 3 ?good, THEN conjunct2, THEN conjunct2, THEN conjunct2,
      rule_format, OF g]
  note ko = CreateSession_result [of 3 ?bad, THEN conjunct2, THEN conjunct2, THEN conjunct1,
      rule_format, OF b']
  note err = CreateSession_result [of 3 ?bad, THEN conjunct1]
  have l: "length zero_ID = 36" and p: "last zero_ID = CHR ''=''"
    using ok by (simp_all add: c)
  have e: "fst (CreateSession 3 ?bad) = ('''', Some ErrUnexpectedEOF)"
    using ko err b by (simp add: prod_eq_iff)
  have s: "sessions (snd (CreateSession 3 ?bad)) = []"
    using ko by (simp add: NewSessionManager_def)
  show ?thesis using g c l p b e s by simp
qed

subsection \<open>Not found\<close>

lemma scan_evicts:
  "map_of (sessions w) sid = Some s \<Longrightarrow> expired t s \<Longrightarrow>
     map_of (sessions (scan t w)) sid = None"
  by (simp add: map_of_scan expired_in_expired_keys)

text \<open>
  Claim C5. For an ID that is not in the store, \<open>GetSessionData\<close> and \<open>UpdateSessionData\<close>
  both return \<open>ErrSessionNotFound\<close>. An ID whose session a pass of the cleaner has just
  removed is such an ID, so both calls return the same error for it as for an ID that
  never existed. Neither call ever returns another error.
\<close>

theorem not_found_symmetry:
  "(map_of (sessions w) sid = None \<longrightarrow>
      fst (GetSessionData sid w) = (Map.empty, Some ErrSessionNotFound) \<and>
      fst (UpdateSessionData now sid d w) = Some ErrSessionNotFound) \<and>
   (map_of (sessions w) sid = Some s \<and> expired t s \<longrightarrow>
      map_of (sessions (scan t w)) sid = None \<and>
      fst (GetSessionData sid (scan t w)) = (Map.empty, Some ErrSessionNotFound) \<and>
      fst (UpdateSessionData now sid d (scan t w)) = Some ErrSessionNotFound) \<and>
   snd (fst (GetSessionData sid w)) \<in> {None, Some ErrSessionNotFound} \<and>
   fst (UpdateSessionData now sid d w) \<in> {None, Some ErrSessionNotFound}"
proof -
  have absent: "fst (GetSessionData sid w') = (Map.empty, Some ErrSessionNotFound) \<and>
      fst (UpdateSessionData now sid d w') = Some ErrSessionNotFound"
    if "map_of (sessions w') sid = None" for w' :: "'a world"
    using that by (simp add: GetSessionData_eq UpdateSessionData_absent)
  have kinds: "snd (fst (GetSessionData sid w)) \<in> {None, Some ErrSessionNotFound} \<and>
      fst (UpdateSessionData now sid d w) \<in> {None, Some ErrSessionNotFound}"
    by (cases "map_of (sessions w) sid")
       (simp_all add: GetSessionData_eq UpdateSessionData_absent UpdateSessionData_present)
  show ?thesis
    using absent [of w] absent [of "scan t w"] kinds scan_evicts [of w sid s t]
    by (intro conjI impI) (elim conjE, simp_all)
qed

theorem not_found_symmetry_witness:
  "map_of (sessions (NewSessionManager (zero_Reader 26) :: string world)) zero_ID = None \<and>
   fst (GetSessionData zero_ID (NewSessionManager (zero_Reader 26) :: string world)) =
     (Map.empty, Some ErrSessionNotFound) \<and>
   fst (UpdateSessionData 1 zero_ID website (NewSessionManager (zero_Reader 26))) =
     Some ErrSessionNotFound \<and>
   map_of (sessions (snd (CreateSession 0 (NewSessionManager (zero_Reader 26) :: string world))))
     zero_ID = Some \<lparr>Data = Map.empty, LastUpdate = 0\<rparr> \<and>
   expired (5 * Second) \<lparr>Data = Map.empty :: string \<rightharpoonup> string, LastUpdate = 0\<rparr> \<and>
   fst (GetSessionData zero_ID
      (scan (5 * Second) (snd (CreateSession 0 (NewSessionManager (zero_Reader 26) :: string world))))) =
     (Map.empty, Some ErrSessionNotFound) \<and>
   fst (UpdateSessionData (6 * Second) zero_ID website
      (scan (5 * Second) (snd (CreateSession 0 (NewSessionManager (zero_Reader 26)))))) =
     Some ErrSessionNotFound"
proof -
  let ?init = "NewSessionManager (zero_Reader 26) :: string world"
  let ?w = "snd (CreateSession 0 ?init)"
  let ?s = "\<lparr>Data = Map.empty :: string \<rightharpoonup> string, LastUpdate = 0\<rparr>"
  have a: "map_of (sessions ?init) zero_ID = None"
    by (simp add: NewSessionManager_def)
  have p: "map_of (sessions ?w) zero_ID = Some ?s"
    using CreateSession_zero [of 1 0] by simp
  have x: "expired (5 * Second) ?s"
    by (simp add: expired_def Since_def)
  note never = not_found_symmetry [of ?init zero_ID 1 website, THEN conjunct1, rule_format, OF a]
  note evicted = not_found_symmetry [of ?w zero_ID "6 * Second" website ?s "5 * Second",
      THEN conjunct2, THEN conjunct1, rule_format, OF conjI [OF p x]]
  show ?thesis using a p x never evicted by simp
qed

subsection \<open>What an operation leaves as it was\<close>

lemma update_absent:
  "map_of al k = None \<Longrightarrow> AList.update k v al = al @ [(k, v)]"
  by (induction al) (auto split: if_splits)

lemma update_present_keys:
  "map_of al k = Some v' \<Longrightarrow> map fst (AList.update k v al) = map fst al"
  by (induction al) (auto split: if_splits)

lemma CreateSession_zero_Reader:
  "rand_Reader w = zero_Reader n \<Longrightarrow> 26 \<le> n \<Longrightarrow>
   CreateSession now w =
     ((zero_ID, None),
      w\<lparr>sessions := AList.update zero_ID \<lparr>Data = Map.empty, LastUpdate = now\<rparr> (sessions w),
         sync := False, rand_Reader := zero_Reader (n - 26),
         trace := trace w @ [Lock, RandRead 26, MapSet zero_ID, Unlock]\<rparr>)"
  by (subst CreateSession_succeeds) (simp_all add: zero_Reader_def zero_ID_def min_def)

lemma stored_eq:
  "26 \<le> n \<Longrightarrow>
   stored n =
     \<lparr>sessions = [(zero_ID, \<lparr>Data = website, LastUpdate = 2\<rparr>)], sync = False,
       done_ch = \<lparr>closed = False, sendq = []\<rparr>, cleaner = AtSelect,
       rand_Reader = zero_Reader (n - 26),
       trace = [Lock, RandRead 26, MapSet zero_ID, Unlock, Lock, MapGet zero_ID, MapSet zero_ID, Unlock],
       panic = None\<rparr>"
proof -
  assume n: "26 \<le> n"
  let ?init = "NewSessionManager (zero_Reader n) :: string world"
  have r: "rand_Reader ?init = zero_Reader n" by (simp add: NewSessionManager_def)
  let ?w = "snd (CreateSession 1 ?init)"
  have w: "?w = \<lparr>sessions = [(zero_ID, \<lparr>Data = Map.empty, LastUpdate = 1\<rparr>)], sync = False,
       done_ch = \<lparr>closed = False, sendq = []\<rparr>, cleaner = AtSelect,
       rand_Reader = zero_Reader (n - 26),
       trace = [Lock, RandRead 26, MapSet zero_ID, Unlock], panic = None\<rparr>"
    by (simp add: CreateSession_zero_Reader [OF r n]) (simp add: NewSessionManager_def)
  have p: "map_of (sessions ?w) zero_ID = Some \<lparr>Data = Map.empty, LastUpdate = 1\<rparr>"
    by (simp add: w)
  show ?thesis
    unfolding stored_def by (simp add: UpdateSessionData_present [OF p]) (simp add: w)
qed

text \<open>
  Claim C10, as stated, fails where it says that \<open>CreateSession\<close> adds a new entry and leaves
  every entry as it was: the code does not look the generated ID up before it assigns.
  When the entropy source delivers the same 26 bytes a second time, the second call
  replaces the session stored under that ID (its data and its time), and the map has
  as many entries as before.
\<close>

theorem CreateSession_collision_counterexample:
  "map_of (sessions (stored 52)) zero_ID = Some \<lparr>Data = website, LastUpdate = 2\<rparr> \<and>
   fst (CreateSession 3 (stored 52)) = (zero_ID, None) \<and>
   map_of (sessions (snd (CreateSession 3 (stored 52)))) zero_ID =
     Some \<lparr>Data = Map.empty, LastUpdate = 3\<rparr> \<and>
   map_of (sessions (snd (CreateSession 3 (stored 52)))) zero_ID \<noteq>
     map_of (sessions (stored 52)) zero_ID \<and>
   length (sessions (snd (CreateSession 3 (stored 52)))) = length (sessions (stored 52))"
proof -
  have s: "stored 52 =
     \<lparr>sessions = [(zero_ID, \<lparr>Data = website, LastUpdate = 2\<rparr>)], sync = False,
       done_ch = \<lparr>closed = False, sendq = []\<rparr>, cleaner = AtSelect,
       rand_Reader = zero_Reader 26,
       trace = [Lock, RandRead 26, MapSet zero_ID, Unlock, Lock, MapGet zero_ID, MapSet zero_ID, Unlock],
       panic = None\<rparr>"
    using stored_eq [of 52] by simp
  have r: "rand_Reader (stored 52) = zero_Reader 26" by (simp add: s)
  show ?thesis
    by (simp add: CreateSession_zero_Reader [OF r]) (simp add: s)
qed

text \<open>
  Claim C10, amended. \<open>GetSessionData\<close> leaves the map as it was. \<open>UpdateSessionData\<close>
  leaves every entry under another ID as it was, and the whole map when it returns an
  error. \<open>CreateSession\<close> leaves every entry under an ID other than the one it returns as
  it was, and the whole map when it returns an error; when the ID it generates is not in
  the map it adds exactly one entry, the new session under that ID; when the ID is
  already in the map it replaces the session under it and the keys of the map are as
  before.
\<close>

theorem operations_frame:
  "sessions (snd (GetSessionData sid w)) = sessions w \<and>
   (k \<noteq> sid \<longrightarrow>
      map_of (sessions (snd (UpdateSessionData now sid d w))) k = map_of (sessions w) k) \<and>
   (fst (UpdateSessionData now sid d w) \<noteq> None \<longrightarrow>
      sessions (snd (UpdateSessionData now sid d w)) = sessions w) \<and>
   (k \<noteq> fst (fst (CreateSession now w)) \<longrightarrow>
      map_of (sessions (snd (CreateSession now w))) k = map_of (sessions w) k) \<and>
   (snd (fst (CreateSession now w)) \<noteq> None \<longrightarrow>
      sessions (snd (CreateSession now w)) = sessions w) \<and>
   (snd (fst (CreateSession now w)) = None \<and>
    map_of (sessions w) (fst (fst (CreateSession now w))) = None \<longrightarrow>
      sessions (snd (CreateSession now w)) =
        sessions w @ [(fst (fst (CreateSession now w)), \<lparr>Data = Map.empty, LastUpdate = now\<rparr>)]) \<and>
   (snd (fst (CreateSession now w)) = None \<and>
    map_of (sessions w) (fst (fst (CreateSession now w))) \<noteq> None \<longrightarrow>
      map fst (sessions (snd (CreateSession now w))) = map fst (sessions w) \<and>
      map_of (sessions (snd (CreateSession now w))) (fst (fst (CreateSession now w))) =
        Some \<lparr>Data = Map.empty, LastUpdate = now\<rparr>)"
proof -
  have get: "sessions (snd (GetSessionData sid w)) = sessions w"
    by (simp add: GetSessionData_eq)
  have upd: "(k \<noteq> sid \<longrightarrow>
      map_of (sessions (snd (UpdateSessionData now sid d w))) k = map_of (sessions w) k) \<and>
   (fst (UpdateSessionData now sid d w) \<noteq> None \<longrightarrow>
      sessions (snd (UpdateSessionData now sid d w)) = sessions w)"
    by (cases "map_of (sessions w) sid")
       (simp_all add: UpdateSessionData_absent UpdateSessionData_present update_conv')
  have cre: "(k \<noteq> fst (fst (CreateSession now w)) \<longrightarrow>
      map_of (sessions (snd (CreateSession now w))) k = map_of (sessions w) k) \<and>
   (snd (fst (CreateSession now w)) \<noteq> None \<longrightarrow>
      sessions (snd (CreateSession now w)) = sessions w) \<and>
   (snd (fst (CreateSession now w)) = None \<and>
    map_of (sessions w) (fst (fst (CreateSession now w))) = None \<longrightarrow>
      sessions (snd (CreateSession now w)) =
        sessions w @ [(fst (fst (CreateSession now w)), \<lparr>Data = Map.empty, LastUpdate = now\<rparr>)]) \<and>
   (snd (fst (CreateSession now w)) = None \<and>
    map_of (sessions w) (fst (fst (CreateSession now w))) \<noteq> None \<longrightarrow>
      map fst (sessions (snd (CreateSession now w))) = map fst (sessions w) \<and>
      map_of (sessions (snd (CreateSession now w))) (fst (fst (CreateSession now w))) =
        Some \<lparr>Data = Map.empty, LastUpdate = now\<rparr>)"
  proof (cases "26 \<le> length (avail (rand_Reader w))")
    case True
    show ?thesis
      by (auto simp: CreateSession_succeeds [OF True] update_conv' update_absent
          update_present_keys)
  next
    case False
    then have "length (avail (rand_Reader w)) < 26" by simp
    then show ?thesis by (simp add: CreateSession_fails)
  qed
  show ?thesis using get upd cre by blast
qed

lemma zero_ID_length: "length zero_ID = 36"
  by (simp add: zero_ID_def length_EncodeToString)

theorem operations_frame_witness:
  "'''' \<noteq> zero_ID \<and>
   map_of (sessions (snd (UpdateSessionData 4 zero_ID Map.empty (stored 52)))) '''' =
     map_of (sessions (stored 52)) '''' \<and>
   fst (UpdateSessionData 4 zero_ID website (NewSessionManager (zero_Reader 10))) \<noteq> None \<and>
   sessions (snd (UpdateSessionData 4 zero_ID website (NewSessionManager (zero_Reader 10)))) =
     sessions (NewSessionManager (zero_Reader 10) :: string world) \<and>
   snd (fst (CreateSession 4 (NewSessionManager (zero_Reader 10) :: string world))) \<noteq> None \<and>
   sessions (snd (CreateSession 4 (NewSessionManager (zero_Reader 10) :: string world))) =
     sessions (NewSessionManager (zero_Reader 10) :: string world) \<and>
   snd (fst (CreateSession 4 (NewSessionManager (zero_Reader 26) :: string world))) = None \<and>
   map_of (sessions (NewSessionManager (zero_Reader 26) :: string world))
     (fst (fst (CreateSession 4 (NewSessionManager (zero_Reader 26) :: string world)))) = None \<and>
   sessions (snd (CreateSession 4 (NewSessionManager (zero_Reader 26) :: string world))) =
     [(zero_ID, \<lparr>Data = Map.empty, LastUpdate = 4\<rparr>)] \<and>
   snd (fst (CreateSession 4 (stored 52))) = None \<and>
   map_of (sessions (stored 52)) (fst (fst (CreateSession 4 (stored 52)))) \<noteq> None \<and>
   map fst (sessions (snd (CreateSession 4 (stored 52)))) = map fst (sessions (stored 52))"
proof -
  let ?dry = "NewSessionManager (zero_Reader 10) :: string world"
  let ?init = "NewSessionManager (zero_Reader 26) :: string world"
  have s: "stored 52 =
     \<lparr>sessions = [(zero_ID, \<lparr>Data = website, LastUpdate = 2\<rparr>)], sync = False,
       done_ch = \<lparr>closed = False, sendq = []\<rparr>, cleaner = AtSelect,
       rand_Reader = zero_Reader 26,
       trace = [Lock, RandRead 26, MapSet zero_ID, Unlock, Lock, MapGet zero_ID, MapSet zero_ID, Unlock],
       panic = None\<rparr>"
    using stored_eq [of 52] by simp
  have ne: "'''' \<noteq> zero_ID"
  proof
    assume "'''' = zero_ID"
    then have "length zero_ID = length ([] :: string)" by (rule arg_cong [symmetric])
    then have "length zero_ID = 0" by simp
    then show False by (simp add: zero_ID_length)
  qed
  have ue: "fst (UpdateSessionData 4 zero_ID website ?dry) \<noteq> None"
    by (simp add: UpdateSessionData_absent NewSessionManager_def)
  have ce: "snd (fst (CreateSession 4 ?dry)) \<noteq> None"
    by (simp add: CreateSession_fails NewSessionManager_def zero_Reader_def)
  have ri: "rand_Reader ?init = zero_Reader 26" by (simp add: NewSessionManager_def)
  have ci: "fst (CreateSession 4 ?init) = (zero_ID, None)"
    by (simp add: CreateSession_zero_Reader [OF ri])
  have fresh: "snd (fst (CreateSession 4 ?init)) = None \<and>
      map_of (sessions ?init) (fst (fst (CreateSession 4 ?init))) = None"
    by (simp add: ci) (simp add: NewSessionManager_def)
  have rs: "rand_Reader (stored 52) = zero_Reader 26" by (simp add: s)
  have cs: "fst (CreateSession 4 (stored 52)) = (zero_ID, None)"
    by (simp add: CreateSession_zero_Reader [OF rs])
  have coll: "snd (fst (CreateSession 4 (stored 52))) = None \<and>
      map_of (sessions (stored 52)) (fst (fst (CreateSession 4 (stored 52)))) \<noteq> None"
    by (simp add: cs) (simp add: s)
  note f1 = operations_frame [where k = "''''" and sid = zero_ID and now = 4 and d = Map.empty
      and w = "stored 52",
      THEN conjunct2, THEN conjunct1, rule_format, OF ne]
  note f2 = operations_frame [where sid = zero_ID and w = ?dry and now = 4 and d = website,
      THEN conjunct2, THEN conjunct2, THEN conjunct1, rule_format, OF ue]
  note f3 = operations_frame [where w = ?dry and now = 4,
      THEN conjunct2, THEN conjunct2, THEN conjunct2, THEN conjunct2, THEN conjunct1,
      rule_format, OF ce]
  note f4 = operations_frame [where w = ?init and now = 4,
      THEN conjunct2, THEN conjunct2, THEN conjunct2, THEN conjunct2, THEN conjunct2,
      THEN conjunct1, rule_format, OF fresh]
  note f5 = operations_frame [where w = "stored 52" and now = 4,
      THEN conjunct2, THEN conjunct2, THEN conjunct2, THEN conjunct2, THEN conjunct2,
      THEN conjunct2, rule_format, OF coll, THEN conjunct1]
  have f4': "sessions (snd (CreateSession 4 ?init)) =
      [(zero_ID, \<lparr>Data = Map.empty, LastUpdate = 4\<rparr>)]"
    using f4 by (simp add: ci) (simp add: NewSessionManager_def)
  show ?thesis
    using ne f1 ue f2 ce f3 fresh f4' coll f5 by blast
qed

subsection \<open>Steps and runs\<close>

lemma sessions_close_done: "sessions (close_done w) = sessions w"
  by (simp add: close_done_def emit_def Let_def)

lemma sessions_StopSession: "sessions (StopSession w) = sessions w"
  by (simp add: StopSession_def emit_def Let_def)

lemma sessions_MangeSession:
  "sessions (MangeSession t w) =
     (case cleaner w of
        Sleeping wake \<Rightarrow> if wake \<le> t then sessions (scan t w) else sessions w
      | _ \<Rightarrow> sessions w)"
  by (simp add: MangeSession_def sessions_close_done emit_def split: cleaner_pc.splits)

lemma sessions_CreateSession:
  "sessions (snd (CreateSession now w)) =
     (if snd (fst (CreateSession now w)) = None
      then AList.update (fst (fst (CreateSession now w))) \<lparr>Data = Map.empty, LastUpdate = now\<rparr>
             (sessions w)
      else sessions w)"
proof (cases "26 \<le> length (avail (rand_Reader w))")
  case True
  then show ?thesis by (simp add: CreateSession_succeeds)
next
  case False
  then have "length (avail (rand_Reader w)) < 26" by simp
  then show ?thesis by (simp add: CreateSession_fails)
qed

lemma sessions_UpdateSessionData:
  "sessions (snd (UpdateSessionData now sid d w)) =
     (case map_of (sessions w) sid of
        None \<Rightarrow> sessions w
      | Some s \<Rightarrow> AList.update sid (s\<lparr>Data := d, LastUpdate := now\<rparr>) (sessions w))"
  by (simp add: UpdateSessionData_absent UpdateSessionData_present split: option.splits)

lemma sessions_GetSessionData: "sessions (snd (GetSessionData sid w)) = sessions w"
  by (simp add: GetSessionData_eq)


lemma created_ConsD:
  "sid \<notin> set (created (ta # tas) w) \<Longrightarrow>
     sid \<notin> set (created [ta] w) \<and> sid \<notin> set (created tas (step ta w))"
  by (simp only: created.simps set_append Un_iff append_Nil2 de_Morgan_disj simp_thms)




lemma step_absent:
  assumes "map_of (sessions w) sid = None" "sid \<notin> set (created [ta] w)"
  shows "map_of (sessions (step ta w)) sid = None"
proof (cases "panic w = None")
  case False
  then show ?thesis using assms(1) by (simp add: step_def)
next
  case True
  show ?thesis
  proof (cases "snd ta")
    case Create
    with True assms show ?thesis
      by (auto simp: step_def sessions_CreateSession update_conv')
  next
    case (Get k)
    with True assms(1) show ?thesis by (simp add: step_def sessions_GetSessionData)
  next
    case (Update k d)
    with True assms(1) show ?thesis
      by (auto simp: step_def sessions_UpdateSessionData update_conv' split: option.splits)
  next
    case Stop
    with True assms(1) show ?thesis by (simp add: step_def sessions_StopSession)
  next
    case Cleaner
    with True assms(1) show ?thesis
      by (auto simp: step_def sessions_MangeSession map_of_scan split: cleaner_pc.splits)
  qed
qed

lemma run_absent:
  "map_of (sessions w) sid = None \<Longrightarrow> sid \<notin> set (created tas w) \<Longrightarrow>
     map_of (sessions (run tas w)) sid = None"
proof (induction tas arbitrary: w)
  case Nil
  then show ?case by simp
next
  case (Cons ta tas)
  note c = created_ConsD [OF Cons.prems(2)]
  have "map_of (sessions (step ta w)) sid = None"
    using Cons.prems(1) c by (intro step_absent) blast+
  then have "map_of (sessions (run tas (step ta w))) sid = None"
    using c by (intro Cons.IH) blast+
  then show ?case by simp
qed

lemma distinct_scan:
  "distinct (map fst (sessions w)) \<Longrightarrow> distinct (map fst (sessions (scan t w)))"
  by (simp add: sessions_scan distinct_map_filter)

lemma step_distinct:
  assumes "distinct (map fst (sessions w))"
  shows "distinct (map fst (sessions (step ta w)))"
proof (cases "panic w = None")
  case False
  then show ?thesis using assms by (simp add: step_def)
next
  case True
  show ?thesis
    using True assms
    by (cases "snd ta")
       (auto simp: step_def sessions_CreateSession sessions_GetSessionData
          sessions_UpdateSessionData sessions_StopSession sessions_MangeSession
          distinct_update distinct_scan split: option.splits cleaner_pc.splits)
qed

lemma run_distinct:
  "distinct (map fst (sessions w)) \<Longrightarrow> distinct (map fst (sessions (run tas w)))"
  by (induction tas arbitrary: w) (simp_all add: step_distinct)

lemma young_not_expired:
  assumes "distinct (map fst (sessions w))" "map_of (sessions w) sid = Some s"
    "t < LastUpdate s + 5 * Second"
  shows "sid \<notin> set (expired_keys t (sessions w))"
  using assms by (auto simp: expired_keys_distinct expired_def Since_def)

lemma step_young:
  assumes d: "distinct (map fst (sessions w))"
    and p: "map_of (sessions w) sid = Some s" and s: "T \<le> LastUpdate s"
    and t: "T \<le> fst ta" "fst ta < T + 5 * Second"
  shows "\<exists>s'. map_of (sessions (step ta w)) sid = Some s' \<and> T \<le> LastUpdate s'"
proof (cases "panic w = None")
  case False
  then show ?thesis using p s by (simp add: step_def)
next
  case True
  show ?thesis
  proof (cases "snd ta")
    case Create
    with True p s t show ?thesis
      by (auto simp: step_def sessions_CreateSession update_conv')
  next
    case (Get k)
    with True p s show ?thesis by (simp add: step_def sessions_GetSessionData)
  next
    case (Update k d)
    with True p s t show ?thesis
      by (auto simp: step_def sessions_UpdateSessionData update_conv' split: option.splits)
  next
    case Stop
    with True p s show ?thesis by (simp add: step_def sessions_StopSession)
  next
    case Cleaner
    have "sid \<notin> set (expired_keys (fst ta) (sessions w))"
      by (rule young_not_expired [where s = s]) (use d p s t in auto)
    with Cleaner True p s show ?thesis
      by (auto simp: step_def sessions_MangeSession map_of_scan split: cleaner_pc.splits)
  qed
qed

lemma run_young:
  "distinct (map fst (sessions w)) \<Longrightarrow> map_of (sessions w) sid = Some s \<Longrightarrow> T \<le> LastUpdate s \<Longrightarrow>
   list_all (\<lambda>ta. T \<le> fst ta \<and> fst ta < T + 5 * Second) tas \<Longrightarrow>
     \<exists>s'. map_of (sessions (run tas w)) sid = Some s' \<and> T \<le> LastUpdate s'"
proof (induction tas arbitrary: w s)
  case Nil
  then show ?case by simp
next
  case (Cons ta tas)
  obtain s' where s': "map_of (sessions (step ta w)) sid = Some s'" "T \<le> LastUpdate s'"
    using step_young [of w sid s T ta] Cons.prems by auto
  show ?case
    using Cons.IH [OF step_distinct [OF Cons.prems(1)] s'] Cons.prems(4) by simp
qed

subsection \<open>Read after write\<close>



lemma step_Stop:
  "panic w = None \<Longrightarrow> \<not> closed (done_ch w) \<Longrightarrow>
     step (t, Stop) w =
       w\<lparr>done_ch := (done_ch w)\<lparr>sendq := sendq (done_ch w) @ [True]\<rparr>,
         trace := trace w @ [Sleep (6 * Microsecond), ChanSend]\<rparr>"
  by (simp add: step_def StopSession_def emit_def Let_def)


lemma step_Cleaner_wake:
  "panic w = None \<Longrightarrow> cleaner w = Sleeping wake \<Longrightarrow> wake \<le> t \<Longrightarrow>
     step (t, Cleaner) w = (scan t w)\<lparr>cleaner := AtSelect\<rparr>"
  by (simp add: step_def MangeSession_def)

lemma step_Cleaner_receive:
  "panic w = None \<Longrightarrow> cleaner w = AtSelect \<Longrightarrow> \<not> closed (done_ch w) \<Longrightarrow>
   sendq (done_ch w) = [True] \<Longrightarrow>
     step (t, Cleaner) w =
       w\<lparr>cleaner := Exited, done_ch := \<lparr>closed = True, sendq = []\<rparr>,
         trace := trace w @ [ChanRecv, LogStopping, ChanClose]\<rparr>"
  by (simp add: step_def MangeSession_def close_done_def emit_def Let_def)

lemma step_Cleaner_Exited:
  "cleaner w = Exited \<Longrightarrow> step (t, Cleaner) w = w"
  by (simp add: step_def MangeSession_def)


end
